theory Spec2Isabelle
  imports Main "HOL-Library.Word" "HOL-Library.Signed_Division"
begin

section \<open>Consensus parameters (src/consensus/params.h)\<close>

subsection \<open>Machine types\<close>

text \<open>
  The fixed-width integers of the header are words of their width. \<open>int\<close> is taken as
  32 bits and \<open>size_t\<close> as 64 bits, as on the platforms the node is built for. The class
  types declared in other headers appear only as member types here: \<open>uint256\<close> is a
  256-bit value, \<open>CScript\<close> a vector of bytes, \<open>CAsset\<close> wraps a \<open>uint256\<close>, \<open>CAmount\<close>
  is \<open>int64_t\<close>.
\<close>

type_synonym int32_t = "32 word"
type_synonym int64_t = "64 word"
type_synonym uint8_t = "8 word"
type_synonym uint32_t = "32 word"
type_synonym size_t = "64 word"
type_synonym uint256 = "256 word"
type_synonym CScript = "uint8_t list"
type_synonym CAsset = uint256
type_synonym CAmount = int64_t

text \<open>\<open>CScript()\<close>: the default-constructed script is the empty byte vector.\<close>

definition CScript_empty :: CScript where
  "CScript_empty = []"

text \<open>\<open>std::numeric_limits<int64_t>::max()\<close>, \<open>::min()\<close> and \<open>std::numeric_limits<uint32_t>::max()\<close>.\<close>

definition INT64_MAX :: int64_t where
  "INT64_MAX = 9223372036854775807"

definition INT64_MIN :: int64_t where
  "INT64_MIN = - 9223372036854775808"

definition UINT32_MAX :: uint32_t where
  "UINT32_MAX = 4294967295"

subsection \<open>Deployments\<close>

text \<open>
  \<open>enum DeploymentPos\<close>: the three deployments; the enumerator
  \<open>MAX_VERSION_BITS_DEPLOYMENTS\<close> that closes the enum is their number, the size of the
  array \<open>vDeployments\<close>.
\<close>

datatype DeploymentPos = DEPLOYMENT_TESTDUMMY | DEPLOYMENT_TAPROOT | DEPLOYMENT_DYNA_FED

definition MAX_VERSION_BITS_DEPLOYMENTS :: nat where
  "MAX_VERSION_BITS_DEPLOYMENTS = 3"

text \<open>
  \<open>struct BIP9Deployment\<close>. The member \<open>bit\<close> is \<open>bit_pos\<close> here (\<open>bit\<close> is a constant of
  HOL). \<open>Optional<uint32_t>\<close> is \<open>uint32_t option\<close>, \<open>nullopt\<close> is \<open>None\<close>.
\<close>

record BIP9Deployment =
  bit_pos :: int32_t
  nStartTime :: int64_t
  nTimeout :: int64_t
  nPeriod :: "uint32_t option"
  nThreshold :: "uint32_t option"

definition NO_TIMEOUT :: int64_t where
  "NO_TIMEOUT = INT64_MAX"

definition ALWAYS_ACTIVE :: int64_t where
  "ALWAYS_ACTIVE = - 1"

text \<open>
  Construction of a \<open>BIP9Deployment\<close>: the struct declares no constructor, so the two
  members with a default member initialiser take it (\<open>nullopt\<close>) and the three others
  keep what the storage holds (zero under value-initialisation, indeterminate under
  default-initialisation). The argument is that storage.
\<close>

definition BIP9Deployment_init :: "BIP9Deployment \<Rightarrow> BIP9Deployment" where
  "BIP9Deployment_init s = s\<lparr>nPeriod := None, nThreshold := None\<rparr>"

subsection \<open>Parameters\<close>

text \<open>
  \<open>struct Params\<close>, member by member. The array \<open>vDeployments\<close>, indexed by
  \<open>DeploymentPos\<close>, is a function on the enum.
\<close>

record Params =
  hashGenesisBlock :: uint256
  nSubsidyHalvingInterval :: int32_t
  BIP16Exception :: uint256
  BIP34Height :: int32_t
  BIP34Hash :: uint256
  BIP65Height :: int32_t
  BIP66Height :: int32_t
  CSVHeight :: int32_t
  SegwitHeight :: int32_t
  MinBIP9WarningHeight :: int32_t
  nRuleChangeActivationThreshold :: uint32_t
  nMinerConfirmationWindow :: uint32_t
  vDeployments :: "DeploymentPos \<Rightarrow> BIP9Deployment"
  powLimit :: uint256
  fPowAllowMinDifficultyBlocks :: bool
  fPowNoRetargeting :: bool
  nPowTargetSpacing :: int64_t
  nPowTargetTimespan :: int64_t
  nMinimumChainWork :: uint256
  defaultAssumeValid :: uint256
  signet_blocks :: bool
  signet_challenge :: "uint8_t list"
  mandatory_coinbase_destination :: CScript
  genesis_subsidy :: CAmount
  subsidy_asset :: CAsset
  connect_genesis_outputs :: bool
  has_parent_chain :: bool
  parentChainPowLimit :: uint256
  pegin_min_depth :: uint32_t
  parent_chain_signblockscript :: CScript
  fedpegScript :: CScript
  pegged_asset :: CAsset
  parent_pegged_asset :: CAsset
  genesis_style :: string
  signblockscript :: CScript
  max_block_signature_size :: uint32_t
  dynamic_epoch_length :: uint32_t
  first_extension_space :: "uint8_t list list"
  total_valid_epochs :: size_t
  elements_mode :: bool

text \<open>
  Construction of a \<open>Params\<close>: no constructor is declared, so construction runs the default
  member initialisers and nothing else; it has no failing branch. The argument is the
  storage the object is built in: it gives the members that have no initialiser
  (whatever their own types' constructors or the zero- or default-initialisation of
  scalars leave there).
\<close>

definition Params_init :: "Params \<Rightarrow> Params" where
  "Params_init s = s\<lparr>
     vDeployments := (\<lambda>pos. BIP9Deployment_init (vDeployments s pos)),
     signet_blocks := False,
     dynamic_epoch_length := UINT32_MAX,
     total_valid_epochs := 1,
     elements_mode := False\<rparr>"

text \<open>
  Two storages to build concrete configurations in. \<open>zeroed_BIP9Deployment\<close> and
  \<open>zeroed_Params\<close> are the zero-initialised storage of value-initialisation
  (\<open>Params{}\<close>): every scalar is 0 or false, every script, vector and string empty.
\<close>

definition zeroed_BIP9Deployment :: BIP9Deployment where
  "zeroed_BIP9Deployment =
     \<lparr>bit_pos = 0, nStartTime = 0, nTimeout = 0, nPeriod = None, nThreshold = None\<rparr>"

definition zeroed_Params :: Params where
  "zeroed_Params = \<lparr>
     hashGenesisBlock = 0,
     nSubsidyHalvingInterval = 0,
     BIP16Exception = 0,
     BIP34Height = 0,
     BIP34Hash = 0,
     BIP65Height = 0,
     BIP66Height = 0,
     CSVHeight = 0,
     SegwitHeight = 0,
     MinBIP9WarningHeight = 0,
     nRuleChangeActivationThreshold = 0,
     nMinerConfirmationWindow = 0,
     vDeployments = (\<lambda>pos. zeroed_BIP9Deployment),
     powLimit = 0,
     fPowAllowMinDifficultyBlocks = False,
     fPowNoRetargeting = False,
     nPowTargetSpacing = 0,
     nPowTargetTimespan = 0,
     nMinimumChainWork = 0,
     defaultAssumeValid = 0,
     signet_blocks = False,
     signet_challenge = [],
     mandatory_coinbase_destination = CScript_empty,
     genesis_subsidy = 0,
     subsidy_asset = 0,
     connect_genesis_outputs = False,
     has_parent_chain = False,
     parentChainPowLimit = 0,
     pegin_min_depth = 0,
     parent_chain_signblockscript = CScript_empty,
     fedpegScript = CScript_empty,
     pegged_asset = 0,
     parent_pegged_asset = 0,
     genesis_style = [],
     signblockscript = CScript_empty,
     max_block_signature_size = 0,
     dynamic_epoch_length = 0,
     first_extension_space = [],
     total_valid_epochs = 0,
     elements_mode = False\<rparr>"

text \<open>\<open>Consensus::Params p{};\<close>\<close>

definition Params_value_init :: Params where
  "Params_value_init = Params_init zeroed_Params"

subsection \<open>Member functions\<close>

text \<open>
  The built-in \<open>/\<close> on \<open>int64_t\<close>: the quotient truncated towards zero. Its behaviour is
  undefined, so there is no result, when the divisor is 0 and when the quotient is not
  representable (\<open>INT64_MIN / -1\<close>).
\<close>

datatype error = DivisionByZero | SignedOverflow

definition int64_div :: "int64_t \<Rightarrow> int64_t \<Rightarrow> error + int64_t" where
  "int64_div a b =
     (if b = 0 then Inl DivisionByZero
      else if a = INT64_MIN \<and> b = - 1 then Inl SignedOverflow
      else Inr (word_of_int (sint a sdiv sint b)))"

text \<open>
  A member function takes the object and returns its result together with the object
  as the call leaves it. Both member functions are \<open>const\<close> and their bodies are a single
  \<open>return\<close> of an expression over the members.

  \<open>int64_t DifficultyAdjustmentInterval() const { return nPowTargetTimespan / nPowTargetSpacing; }\<close>
\<close>

definition DifficultyAdjustmentInterval :: "Params \<Rightarrow> error + int64_t \<times> Params" where
  "DifficultyAdjustmentInterval this =
     (case int64_div (nPowTargetTimespan this) (nPowTargetSpacing this) of
        Inl e \<Rightarrow> Inl e
      | Inr q \<Rightarrow> Inr (q, this))"

text \<open>\<open>bool ParentChainHasPow() const { return parent_chain_signblockscript == CScript();}\<close>\<close>

definition ParentChainHasPow :: "Params \<Rightarrow> bool \<times> Params" where
  "ParentChainHasPow this = (parent_chain_signblockscript this = CScript_empty, this)"

section \<open>Rule activation and epochs, as the specification describes them\<close>

subsection \<open>Threshold states\<close>

text \<open>
  Modelled from the spec: the deployment-threshold state machine (the specification's
  ThresholdStateCalculator, sections 3 and 4.1). The header holds the deployment
  parameters only; the function that computes a state is not among the sources. Heights
  are the non-negative integers. The signalling history is the collaborator's query
  \<open>signalBit(height, bitPosition)\<close>.
\<close>

datatype ThresholdState = DEFINED | STARTED | LOCKED_IN | ACTIVE | FAILED

type_synonym SignalHistory = "nat \<Rightarrow> int32_t \<Rightarrow> bool"

text \<open>
  Modelled from the spec: the window length \<open>W\<close> is "the deployment's window-length
  override, or the chain-wide default", the threshold the "spec override or chain
  default".
\<close>

definition Period :: "Params \<Rightarrow> BIP9Deployment \<Rightarrow> nat" where
  "Period p d = (case nPeriod d of Some w \<Rightarrow> unat w | None \<Rightarrow> unat (nMinerConfirmationWindow p))"

definition Threshold :: "Params \<Rightarrow> BIP9Deployment \<Rightarrow> nat" where
  "Threshold p d =
     (case nThreshold d of Some t \<Rightarrow> unat t | None \<Rightarrow> unat (nRuleChangeActivationThreshold p))"

text \<open>
  Modelled from the spec: the number of "blocks within the previous window \<open>[b-W, b)\<close>
  whose decoded signaling bit for this deployment's position is set", for the heights
  from \<open>lo\<close> up to \<open>hi\<close> exclusive.
\<close>

definition signal_count :: "SignalHistory \<Rightarrow> BIP9Deployment \<Rightarrow> nat \<Rightarrow> nat \<Rightarrow> nat" where
  "signal_count sig d lo hi = length (filter (\<lambda>h. sig h (bit_pos d)) [lo..<hi])"

text \<open>
  Modelled from the spec: the transition rule "evaluated at each window boundary \<open>b\<close>,
  given the state at the previous window boundary", with the threshold \<open>T\<close> and the
  count \<open>n\<close> of signalling blocks of the previous window. The start and timeout heights
  are the signed 64-bit members of the deployment.
\<close>

fun transition :: "BIP9Deployment \<Rightarrow> nat \<Rightarrow> ThresholdState \<Rightarrow> nat \<Rightarrow> nat \<Rightarrow> ThresholdState" where
  "transition d T DEFINED b n =
     (if sint (nTimeout d) \<le> int b then FAILED
      else if sint (nStartTime d) \<le> int b then STARTED
      else DEFINED)"
| "transition d T STARTED b n =
     (if sint (nTimeout d) \<le> int b then FAILED
      else if T \<le> n then LOCKED_IN
      else STARTED)"
| "transition d T LOCKED_IN b n = ACTIVE"
| "transition d T ACTIVE b n = ACTIVE"
| "transition d T FAILED b n = FAILED"

text \<open>
  Modelled from the spec: the state at the boundary of window \<open>k\<close>, the height \<open>k * W\<close>.
  Before the first window a deployment is \<open>DEFINED\<close>; the rule is evaluated at every
  boundary from height 0 on (no block precedes height 0, so the count there is 0). This is
  the reading under which the specification's window-boundary example holds (start
  height 0, window 10, threshold 8, all of \<open>[0,10)\<close> signalling: \<open>LOCKED_IN\<close> at 10 and
  \<open>ACTIVE\<close> at 20).
\<close>

fun state_at_window :: "Params \<Rightarrow> SignalHistory \<Rightarrow> BIP9Deployment \<Rightarrow> nat \<Rightarrow> ThresholdState" where
  "state_at_window p sig d 0 = transition d (Threshold p d) DEFINED 0 0"
| "state_at_window p sig d (Suc k) =
     transition d (Threshold p d) (state_at_window p sig d k) (Suc k * Period p d)
       (signal_count sig d (k * Period p d) (Suc k * Period p d))"

text \<open>
  Modelled from the spec: \<open>state(deployment, height)\<close>. A deployment whose start height is
  the "always active" sentinel is \<open>ACTIVE\<close> and the state machine is skipped; otherwise
  the state is the one at the boundary of the window \<open>h / W\<close> that holds the height. The
  specification gives no window index for a window length of 0: the division has no
  result there.
\<close>

definition state :: "Params \<Rightarrow> SignalHistory \<Rightarrow> BIP9Deployment \<Rightarrow> nat \<Rightarrow> error + ThresholdState" where
  "state p sig d h =
     (if nStartTime d = ALWAYS_ACTIVE then Inr ACTIVE
      else if Period p d = 0 then Inl DivisionByZero
      else Inr (state_at_window p sig d (h div Period p d)))"

subsection \<open>Federation epochs\<close>

text \<open>
  Modelled from the spec: "epoch index for height \<open>h\<close> is \<open>h / epochLength\<close>" (section
  4.2); the function that computes it is not among the sources. The epoch length is the
  unsigned 32-bit member \<open>dynamic_epoch_length\<close>; a length of 0 gives no index.
\<close>

definition epochIndex :: "Params \<Rightarrow> nat \<Rightarrow> error + nat" where
  "epochIndex p h =
     (if dynamic_epoch_length p = 0 then Inl DivisionByZero
      else Inr (h div unat (dynamic_epoch_length p)))"

subsection \<open>Truncating quotient\<close>

text \<open>
  The "truncating integer quotient" that the division of the source is compared with,
  written out from those words on the integers: the quotient of the magnitudes,
  negated when the signs of dividend and divisor differ.
\<close>

definition truncating_quotient :: "int \<Rightarrow> int \<Rightarrow> int" where
  "truncating_quotient a b =
     (if (a < 0) = (b < 0) then \<bar>a\<bar> div \<bar>b\<bar> else - (\<bar>a\<bar> div \<bar>b\<bar>))"

section \<open>Example configurations\<close>

text \<open>
  Configurations and deployments built as a chain's parameters are: construction, then
  assignments to members. \<open>cfg_pow\<close> has the proof-of-work timing of the main Bitcoin
  chain (a two-week timespan over ten-minute spacing) and a confirmation window of 10
  with threshold 8.
\<close>

definition cfg_pow :: Params where
  "cfg_pow = Params_value_init\<lparr>
     nRuleChangeActivationThreshold := 8,
     nMinerConfirmationWindow := 10,
     nPowTargetSpacing := 600,
     nPowTargetTimespan := 1209600\<rparr>"

definition cfg_negative_timespan :: Params where
  "cfg_negative_timespan = Params_value_init\<lparr>nPowTargetSpacing := 2, nPowTargetTimespan := - 7\<rparr>"

definition cfg_min_timespan :: Params where
  "cfg_min_timespan = Params_value_init\<lparr>nPowTargetSpacing := - 1, nPowTargetTimespan := INT64_MIN\<rparr>"

definition cfg_zero_valid_epochs :: Params where
  "cfg_zero_valid_epochs = Params_value_init\<lparr>total_valid_epochs := 0\<rparr>"

definition cfg_bit_29 :: Params where
  "cfg_bit_29 = Params_value_init\<lparr>
     vDeployments := (vDeployments Params_value_init)
       (DEPLOYMENT_TESTDUMMY := (vDeployments Params_value_init DEPLOYMENT_TESTDUMMY)\<lparr>bit_pos := 29\<rparr>)\<rparr>"

definition dep_always_active :: BIP9Deployment where
  "dep_always_active =
     (BIP9Deployment_init zeroed_BIP9Deployment)\<lparr>bit_pos := 28, nStartTime := ALWAYS_ACTIVE, nTimeout := NO_TIMEOUT\<rparr>"

definition dep_no_timeout :: BIP9Deployment where
  "dep_no_timeout =
     (BIP9Deployment_init zeroed_BIP9Deployment)\<lparr>bit_pos := 25, nStartTime := 0, nTimeout := NO_TIMEOUT\<rparr>"

definition dep_timeout_30 :: BIP9Deployment where
  "dep_timeout_30 =
     (BIP9Deployment_init zeroed_BIP9Deployment)\<lparr>bit_pos := 25, nStartTime := 0, nTimeout := 30\<rparr>"

text \<open>Signalling histories: no block signals; the blocks below height 10, or 7, signal bit 25.\<close>

definition no_signal :: SignalHistory where
  "no_signal = (\<lambda>h b. False)"

definition first_ten_signal :: SignalHistory where
  "first_ten_signal = (\<lambda>h b. h < 10 \<and> b = 25)"

definition first_seven_signal :: SignalHistory where
  "first_seven_signal = (\<lambda>h b. h < 7 \<and> b = 25)"

section \<open>Properties\<close>

subsection \<open>The example configurations, member by member\<close>

lemmas value_init_defs =
  Params_value_init_def Params_init_def zeroed_Params_def
  BIP9Deployment_init_def zeroed_BIP9Deployment_def

lemma cfg_pow_timing:
  "nPowTargetSpacing cfg_pow = 600" "nPowTargetTimespan cfg_pow = 1209600"
  by (simp_all add: cfg_pow_def)

lemma Params_value_init_spacing: "nPowTargetSpacing Params_value_init = 0"
  by (simp add: value_init_defs)

lemma cfg_min_timespan_timing:
  "nPowTargetTimespan cfg_min_timespan = INT64_MIN" "nPowTargetSpacing cfg_min_timespan = - 1"
  by (simp_all add: cfg_min_timespan_def)

subsection \<open>Construction defaults\<close>

text \<open>
  C5. In a newly constructed deployment the window-length override \<open>nPeriod\<close> and the
  threshold override \<open>nThreshold\<close> are both absent. Each is an optional value (present
  or absent), not a number with a reserved value, and construction sets it to absent,
  whatever the storage held; the same holds for every deployment of a newly constructed
  \<open>Params\<close>.
\<close>

theorem new_deployment_overrides_absent:
  "nPeriod (BIP9Deployment_init s) = None \<and> nThreshold (BIP9Deployment_init s) = None \<and>
   nPeriod (vDeployments (Params_init c) pos) = None \<and>
   nThreshold (vDeployments (Params_init c) pos) = None"
  by (simp add: BIP9Deployment_init_def Params_init_def)

text \<open>
  C10. A default-constructed \<open>Params\<close> has \<open>total_valid_epochs\<close> equal to 1 and
  \<open>elements_mode\<close> false, whatever the storage held: with no further initialisation the
  number of valid epochs is at least 1 and the chain is not in elements mode.
\<close>

theorem default_total_valid_epochs_and_elements_mode:
  "total_valid_epochs (Params_init s) = 1 \<and> 1 \<le> unat (total_valid_epochs (Params_init s)) \<and>
   elements_mode (Params_init s) = False"
  by (simp add: Params_init_def)

subsection \<open>What construction checks\<close>

text \<open>
  C1. Constructing a \<open>Params\<close> raises no error, whatever the members are: the struct has
  no validating constructor. Construction itself gives \<open>total_valid_epochs = 1\<close> and
  \<open>dynamic_epoch_length = 2 ^ 32 - 1\<close>, both nonzero; any value assigned afterwards to
  \<open>total_valid_epochs\<close>, to \<open>dynamic_epoch_length\<close> (with \<open>elements_mode\<close> set or not) or
  to the bit position of a deployment, 0 and a position already in use included, is
  stored as it is, and \<open>ParentChainHasPow\<close> returns its result on every configuration.
\<close>

theorem Params_construction_checks_nothing:
  "total_valid_epochs (Params_init s) = 1 \<and>
   dynamic_epoch_length (Params_init s) = UINT32_MAX \<and> UINT32_MAX \<noteq> 0 \<and>
   total_valid_epochs (c\<lparr>total_valid_epochs := v\<rparr>) = v \<and>
   dynamic_epoch_length (c\<lparr>elements_mode := m, dynamic_epoch_length := e\<rparr>) = e \<and>
   elements_mode (c\<lparr>elements_mode := m, dynamic_epoch_length := e\<rparr>) = m \<and>
   bit_pos (vDeployments
     (c\<lparr>vDeployments := (vDeployments c)(pos := (vDeployments c pos)\<lparr>bit_pos := b\<rparr>)\<rparr>) pos) = b \<and>
   ParentChainHasPow c = (parent_chain_signblockscript c = CScript_empty, c)"
  by (simp add: Params_init_def UINT32_MAX_def ParentChainHasPow_def)

text \<open>
  The claim as first stated (C1) fails on a configuration with
  \<open>total_valid_epochs = 0\<close>: it is constructed without an error, and a query operation
  observes it.
\<close>

theorem zero_valid_epochs_is_observable:
  "total_valid_epochs cfg_zero_valid_epochs = 0 \<and>
   ParentChainHasPow cfg_zero_valid_epochs = (True, cfg_zero_valid_epochs)"
  by (simp add: cfg_zero_valid_epochs_def ParentChainHasPow_def value_init_defs)

text \<open>
  C4. The bit position of a deployment held in a configuration is an \<open>int\<close>: it lies
  between \<open>- 2 ^ 31\<close> and \<open>2 ^ 31 - 1\<close>, and every value of that range can be stored in a
  deployment of a configuration and is read back unchanged. The configuration type
  does not restrict it to the positions 0 to 28.
\<close>

theorem bit_pos_ranges_over_int:
  "- (2 ^ 31) \<le> sint (bit_pos (vDeployments c pos)) \<and>
   sint (bit_pos (vDeployments c pos)) < 2 ^ 31 \<and>
   (- (2 ^ 31) \<le> v \<and> v < 2 ^ 31 \<longrightarrow>
      sint (bit_pos (vDeployments
        (c\<lparr>vDeployments := (vDeployments c)(pos := (vDeployments c pos)\<lparr>bit_pos := word_of_int v\<rparr>)\<rparr>)
        pos)) = v)"
proof (intro conjI impI)
  show "- (2 ^ 31) \<le> sint (bit_pos (vDeployments c pos))"
    using sint_ge [of "bit_pos (vDeployments c pos)"] by simp
  show "sint (bit_pos (vDeployments c pos)) < 2 ^ 31"
    using sint_lt [of "bit_pos (vDeployments c pos)"] by simp
next
  assume "- (2 ^ 31) \<le> v \<and> v < 2 ^ 31"
  then have "sint (word_of_int v :: int32_t) = v"
    by (simp add: sint_sbintrunc' signed_take_bit_int_eq_self)
  then show "sint (bit_pos (vDeployments
      (c\<lparr>vDeployments := (vDeployments c)(pos := (vDeployments c pos)\<lparr>bit_pos := word_of_int v\<rparr>)\<rparr>)
      pos)) = v"
    by simp
qed

theorem bit_pos_ranges_over_int_witness:
  "- (2 ^ 31) \<le> (29 :: int) \<and> (29 :: int) < 2 ^ 31 \<and>
   sint (bit_pos (vDeployments cfg_bit_29 DEPLOYMENT_TESTDUMMY)) = 29"
  using bit_pos_ranges_over_int [of Params_value_init DEPLOYMENT_TESTDUMMY 29]
  by (simp add: cfg_bit_29_def)

text \<open>
  The claim as first stated (C4) fails on a configuration whose first deployment has
  the bit position 29, outside 0 to 28.
\<close>

theorem bit_pos_29_is_representable:
  "\<not> (0 \<le> sint (bit_pos (vDeployments cfg_bit_29 DEPLOYMENT_TESTDUMMY)) \<and>
      sint (bit_pos (vDeployments cfg_bit_29 DEPLOYMENT_TESTDUMMY)) \<le> 28)"
  by (simp add: cfg_bit_29_def)

subsection \<open>Member functions\<close>

text \<open>
  C8. For every configuration, \<open>ParentChainHasPow\<close> returns true if and only if the
  member \<open>parent_chain_signblockscript\<close> equals the empty script.
\<close>

theorem ParentChainHasPow_iff_empty_script:
  "fst (ParentChainHasPow c) \<longleftrightarrow> parent_chain_signblockscript c = CScript_empty"
  by (simp add: ParentChainHasPow_def)

subsection \<open>Signed 64-bit division\<close>

lemma sdiv_eq_truncating_quotient: "a sdiv b = truncating_quotient a b"
  by (auto simp: signed_divide_int_def truncating_quotient_def sgn_if)

lemma abs_sdiv: "\<bar>a sdiv b\<bar> = \<bar>a\<bar> div \<bar>b\<bar>" for a b :: int
proof -
  have "0 \<le> \<bar>a\<bar> div \<bar>b\<bar>"
    by (simp add: div_int_pos_iff)
  then show ?thesis
    by (cases "a = 0"; cases "b = 0") (simp_all add: signed_divide_int_def abs_mult)
qed

lemma abs_sdiv_le_div:
  fixes a b c :: int
  assumes "0 < c" and "c \<le> \<bar>b\<bar>"
  shows "\<bar>a sdiv b\<bar> \<le> \<bar>a\<bar> div c"
  unfolding abs_sdiv using assms by (intro zdiv_mono2) simp_all

lemma sint_INT64_MIN: "sint INT64_MIN = - (2 ^ 63)"
  by (simp add: INT64_MIN_def)

lemma int64_eq_MIN_iff: "a = INT64_MIN \<longleftrightarrow> sint a = - (2 ^ 63)" for a :: int64_t
  using word_eq_iff_signed [where ?'a = int, of a INT64_MIN] by (simp add: sint_INT64_MIN)

lemma int64_eq_minus1_iff: "b = - 1 \<longleftrightarrow> sint b = - 1" for b :: int64_t
  using word_eq_iff_signed [where ?'a = int, of b "- 1"] by simp

lemma int64_eq_0_iff: "b = 0 \<longleftrightarrow> sint b = 0" for b :: int64_t
  using word_eq_iff_signed [where ?'a = int, of b 0] by simp

text \<open>
  The truncated quotient of a 64-bit dividend stays in the 64-bit range, but for
  \<open>- 2 ^ 63\<close> divided by \<open>- 1\<close>.
\<close>

lemma sdiv_in_int64_range:
  fixes a b :: int
  assumes a: "- (2 ^ 63) \<le> a" "a < 2 ^ 63"
    and nz: "b \<noteq> 0" and nov: "\<not> (a = - (2 ^ 63) \<and> b = - 1)"
  shows "- (2 ^ 63) \<le> a sdiv b \<and> a sdiv b < 2 ^ 63"
proof (cases "a = - (2 ^ 63)")
  case False
  with a have "\<bar>a\<bar> < 2 ^ 63" by simp
  moreover from nz have "\<bar>a sdiv b\<bar> \<le> \<bar>a\<bar> div 1"
    by (intro abs_sdiv_le_div) simp_all
  ultimately have "\<bar>a sdiv b\<bar> < 2 ^ 63" by simp
  then show ?thesis by (simp add: abs_less_iff)
next
  case True
  with nov have b1: "b \<noteq> - 1" by simp
  show ?thesis
  proof (cases "b = 1")
    case True
    with \<open>a = - (2 ^ 63)\<close> show ?thesis by simp
  next
    case False
    with nz b1 have "2 \<le> \<bar>b\<bar>" by simp
    then have "\<bar>a sdiv b\<bar> \<le> \<bar>a\<bar> div 2"
      by (intro abs_sdiv_le_div) simp_all
    also have "\<dots> < 2 ^ 63" using True by simp
    finally show ?thesis by (simp add: abs_less_iff)
  qed
qed

lemma int64_div_result:
  assumes "b \<noteq> 0" and "\<not> (a = INT64_MIN \<and> b = - 1)"
  shows "\<exists>q. int64_div a b = Inr q \<and> sint q = truncating_quotient (sint a) (sint b)"
proof -
  have r: "- (2 ^ 63) \<le> sint a" "sint a < 2 ^ 63"
    using sint_ge [of a] sint_lt [of a] by simp_all
  from assms have "sint b \<noteq> 0" "\<not> (sint a = - (2 ^ 63) \<and> sint b = - 1)"
    by (simp_all add: int64_eq_0_iff int64_eq_MIN_iff int64_eq_minus1_iff)
  with r have "- (2 ^ 63) \<le> sint a sdiv sint b \<and> sint a sdiv sint b < 2 ^ 63"
    by (intro sdiv_in_int64_range) simp_all
  then have "sint (word_of_int (sint a sdiv sint b) :: int64_t) = sint a sdiv sint b"
    by (simp add: sint_sbintrunc' signed_take_bit_int_eq_self)
  with assms show ?thesis
    by (simp add: int64_div_def sdiv_eq_truncating_quotient)
qed

lemma DifficultyAdjustmentInterval_Inr:
  "DifficultyAdjustmentInterval c = Inr (q, c') \<longleftrightarrow>
     int64_div (nPowTargetTimespan c) (nPowTargetSpacing c) = Inr q \<and> c' = c"
  by (auto simp: DifficultyAdjustmentInterval_def split: sum.splits)

lemma DifficultyAdjustmentInterval_Inl:
  "DifficultyAdjustmentInterval c = Inl e \<longleftrightarrow>
     int64_div (nPowTargetTimespan c) (nPowTargetSpacing c) = Inl e"
  by (auto simp: DifficultyAdjustmentInterval_def split: sum.splits)

lemma int64_div_Inr_iff:
  "(\<exists>q. int64_div a b = Inr q) \<longleftrightarrow> b \<noteq> 0 \<and> \<not> (a = INT64_MIN \<and> b = - 1)"
  by (auto simp: int64_div_def)

text \<open>
  C9. For every configuration whose \<open>nPowTargetSpacing\<close> is not 0, and which is not the
  pair \<open>nPowTargetTimespan = - 2 ^ 63\<close>, \<open>nPowTargetSpacing = - 1\<close>,
  \<open>DifficultyAdjustmentInterval\<close> returns the quotient of \<open>nPowTargetTimespan\<close> by
  \<open>nPowTargetSpacing\<close> truncated towards zero, and no error branch is reached. The
  division-by-zero branch is unreachable whenever \<open>nPowTargetSpacing\<close> is not 0. The
  operation has no result when \<open>nPowTargetSpacing\<close> is 0 (division by zero), and none
  for \<open>- 2 ^ 63\<close> divided by \<open>- 1\<close>, whose quotient \<open>2 ^ 63\<close> is not a 64-bit signed value.
\<close>

theorem DifficultyAdjustmentInterval_truncating_quotient:
  "(nPowTargetSpacing c \<noteq> 0 \<and> \<not> (nPowTargetTimespan c = INT64_MIN \<and> nPowTargetSpacing c = - 1) \<longrightarrow>
      (\<exists>q. DifficultyAdjustmentInterval c = Inr (q, c) \<and>
           sint q = truncating_quotient (sint (nPowTargetTimespan c)) (sint (nPowTargetSpacing c)))) \<and>
   (nPowTargetSpacing c \<noteq> 0 \<longrightarrow> DifficultyAdjustmentInterval c \<noteq> Inl DivisionByZero) \<and>
   (nPowTargetSpacing c = 0 \<longrightarrow> DifficultyAdjustmentInterval c = Inl DivisionByZero) \<and>
   (nPowTargetTimespan c = INT64_MIN \<and> nPowTargetSpacing c = - 1 \<longrightarrow>
      DifficultyAdjustmentInterval c = Inl SignedOverflow)"
proof (intro conjI impI)
  assume "nPowTargetSpacing c \<noteq> 0 \<and> \<not> (nPowTargetTimespan c = INT64_MIN \<and> nPowTargetSpacing c = - 1)"
  then show "\<exists>q. DifficultyAdjustmentInterval c = Inr (q, c) \<and>
      sint q = truncating_quotient (sint (nPowTargetTimespan c)) (sint (nPowTargetSpacing c))"
    using int64_div_result [of "nPowTargetSpacing c" "nPowTargetTimespan c"]
    by (auto simp: DifficultyAdjustmentInterval_Inr)
next
  assume "nPowTargetSpacing c \<noteq> 0"
  then show "DifficultyAdjustmentInterval c \<noteq> Inl DivisionByZero"
    by (simp add: DifficultyAdjustmentInterval_Inl int64_div_def)
next
  assume "nPowTargetSpacing c = 0"
  then show "DifficultyAdjustmentInterval c = Inl DivisionByZero"
    by (simp add: DifficultyAdjustmentInterval_Inl int64_div_def)
next
  assume "nPowTargetTimespan c = INT64_MIN \<and> nPowTargetSpacing c = - 1"
  then show "DifficultyAdjustmentInterval c = Inl SignedOverflow"
    by (simp add: DifficultyAdjustmentInterval_Inl int64_div_def)
qed

theorem DifficultyAdjustmentInterval_truncating_quotient_witness:
  "nPowTargetSpacing cfg_pow \<noteq> 0 \<and>
   \<not> (nPowTargetTimespan cfg_pow = INT64_MIN \<and> nPowTargetSpacing cfg_pow = - 1) \<and>
   (\<exists>q. DifficultyAdjustmentInterval cfg_pow = Inr (q, cfg_pow) \<and> sint q = 2016) \<and>
   (\<exists>q. DifficultyAdjustmentInterval cfg_negative_timespan = Inr (q, cfg_negative_timespan) \<and> sint q = - 3) \<and>
   nPowTargetSpacing Params_value_init = 0 \<and>
   DifficultyAdjustmentInterval Params_value_init = Inl DivisionByZero \<and>
   nPowTargetTimespan cfg_min_timespan = INT64_MIN \<and> nPowTargetSpacing cfg_min_timespan = - 1 \<and>
   DifficultyAdjustmentInterval cfg_min_timespan = Inl SignedOverflow"
proof -
  note pow = cfg_pow_timing and zero = Params_value_init_spacing and min = cfg_min_timespan_timing
  have neg: "nPowTargetSpacing cfg_negative_timespan = 2" "nPowTargetTimespan cfg_negative_timespan = - 7"
    by (simp_all add: cfg_negative_timespan_def)
  have q1: "truncating_quotient 1209600 600 = 2016" "truncating_quotient (- 7) 2 = - 3"
    by (simp_all add: truncating_quotient_def)
  show ?thesis
    using DifficultyAdjustmentInterval_truncating_quotient [of cfg_pow]
      DifficultyAdjustmentInterval_truncating_quotient [of cfg_negative_timespan]
      DifficultyAdjustmentInterval_truncating_quotient [of Params_value_init]
      DifficultyAdjustmentInterval_truncating_quotient [of cfg_min_timespan]
    by (simp add: pow neg zero min q1 INT64_MIN_def)
qed

text \<open>
  The claim as first stated (C9) fails at the nonzero \<open>nPowTargetSpacing = - 1\<close> with
  \<open>nPowTargetTimespan = - 2 ^ 63\<close>: the operation does not return the quotient there,
  the division overflows.
\<close>

theorem DifficultyAdjustmentInterval_min_by_minus_one:
  "nPowTargetSpacing cfg_min_timespan \<noteq> 0 \<and>
   DifficultyAdjustmentInterval cfg_min_timespan = Inl SignedOverflow"
  by (simp add: DifficultyAdjustmentInterval_Inl int64_div_def cfg_min_timespan_timing)

text \<open>
  C7. \<open>ParentChainHasPow\<close> yields a result on every configuration and leaves every member
  unchanged. \<open>DifficultyAdjustmentInterval\<close> leaves every member unchanged whenever it
  yields a result, and it yields one exactly when \<open>nPowTargetSpacing\<close> is not 0 and the
  division is not \<open>- 2 ^ 63\<close> by \<open>- 1\<close>.
\<close>

theorem member_functions_leave_config_unchanged:
  "(\<exists>r. ParentChainHasPow c = (r, c)) \<and>
   (\<forall>q c'. DifficultyAdjustmentInterval c = Inr (q, c') \<longrightarrow> c' = c) \<and>
   ((\<exists>q. DifficultyAdjustmentInterval c = Inr (q, c)) \<longleftrightarrow>
      nPowTargetSpacing c \<noteq> 0 \<and> \<not> (nPowTargetTimespan c = INT64_MIN \<and> nPowTargetSpacing c = - 1))"
proof (intro conjI allI impI)
  show "\<exists>r. ParentChainHasPow c = (r, c)"
    by (simp add: ParentChainHasPow_def)
next
  fix q c'
  assume "DifficultyAdjustmentInterval c = Inr (q, c')"
  then show "c' = c"
    by (simp add: DifficultyAdjustmentInterval_Inr)
next
  show "(\<exists>q. DifficultyAdjustmentInterval c = Inr (q, c)) \<longleftrightarrow>
      nPowTargetSpacing c \<noteq> 0 \<and> \<not> (nPowTargetTimespan c = INT64_MIN \<and> nPowTargetSpacing c = - 1)"
    using int64_div_Inr_iff [of "nPowTargetTimespan c" "nPowTargetSpacing c"]
    by (simp add: DifficultyAdjustmentInterval_Inr)
qed

theorem member_functions_leave_config_unchanged_witness:
  "ParentChainHasPow cfg_pow = (True, cfg_pow) \<and>
   DifficultyAdjustmentInterval cfg_pow = Inr (2016, cfg_pow) \<and>
   (\<exists>q. DifficultyAdjustmentInterval cfg_pow = Inr (q, cfg_pow))"
proof -
  have "ParentChainHasPow cfg_pow = (True, cfg_pow)"
    by (simp add: ParentChainHasPow_def cfg_pow_def value_init_defs)
  moreover have "DifficultyAdjustmentInterval cfg_pow = Inr (2016, cfg_pow)"
    by (simp add: DifficultyAdjustmentInterval_def int64_div_def cfg_pow_timing
        INT64_MIN_def signed_divide_int_def)
  ultimately show ?thesis
    using member_functions_leave_config_unchanged [of cfg_pow]
    by (simp add: cfg_pow_timing INT64_MIN_def)
qed

text \<open>
  The claim as first stated (C7) asks for a result of either operation on every
  configuration. The value-initialised configuration has \<open>nPowTargetSpacing = 0\<close>, and
  \<open>DifficultyAdjustmentInterval\<close> divides by it.
\<close>

theorem DifficultyAdjustmentInterval_value_init_no_result:
  "DifficultyAdjustmentInterval Params_value_init = Inl DivisionByZero"
  by (simp add: DifficultyAdjustmentInterval_Inl int64_div_def Params_value_init_spacing)

subsection \<open>Sentinels of a deployment\<close>

lemma sint_NO_TIMEOUT: "sint NO_TIMEOUT = 2 ^ 63 - 1"
  by (simp add: NO_TIMEOUT_def INT64_MAX_def)

lemma transition_not_FAILED:
  assumes "st \<noteq> FAILED" and "\<not> sint (nTimeout d) \<le> int b"
  shows "transition d T st b n \<noteq> FAILED"
  using assms by (cases st) simp_all

lemma state_at_window_not_FAILED:
  assumes "nTimeout d = NO_TIMEOUT" and "int (k * Period p d) < 2 ^ 63 - 1"
  shows "state_at_window p sig d k \<noteq> FAILED"
  using assms(2)
proof (induction k)
  case 0
  with assms(1) show ?case
    by (simp add: sint_NO_TIMEOUT)
next
  case (Suc k)
  have "k * Period p d \<le> Suc k * Period p d"
    by simp
  with Suc.prems have "int (k * Period p d) < 2 ^ 63 - 1"
    by linarith
  then have "state_at_window p sig d k \<noteq> FAILED"
    by (rule Suc.IH)
  moreover from assms(1) Suc.prems have "\<not> sint (nTimeout d) \<le> int (Suc k * Period p d)"
    by (simp add: sint_NO_TIMEOUT)
  ultimately show ?case
    unfolding state_at_window.simps by (rule transition_not_FAILED)
qed

text \<open>
  The model of the state machine on the specification's own examples (window 10,
  threshold 8, start height 0): all of \<open>[0,10)\<close> signalling gives \<open>LOCKED_IN\<close> at 10 and
  \<open>ACTIVE\<close> at 20; 7 of them signalling gives \<open>STARTED\<close> at 10; with timeout height 30 and
  no signal the state at 40 is \<open>FAILED\<close>.
\<close>

lemma state_window_boundary_example:
  "state cfg_pow first_ten_signal dep_no_timeout 10 = Inr LOCKED_IN"
  "state cfg_pow first_ten_signal dep_no_timeout 20 = Inr ACTIVE"
  "state cfg_pow first_seven_signal dep_no_timeout 10 = Inr STARTED"
  by code_simp+

lemma state_timeout_example:
  "state cfg_pow no_signal dep_timeout_30 40 = Inr FAILED"
  by code_simp

text \<open>
  C2. For every deployment whose start height is the sentinel \<open>ALWAYS_ACTIVE\<close>, the
  state is \<open>ACTIVE\<close> at every height, whatever the signalling history, the window length
  and the threshold are: the state machine is not consulted. The sentinel is \<open>- 1\<close>,
  strictly below every height.
\<close>

theorem always_active_state:
  "nStartTime d = ALWAYS_ACTIVE \<Longrightarrow>
   state p sig d h = Inr ACTIVE \<and> sint ALWAYS_ACTIVE = - 1 \<and> sint ALWAYS_ACTIVE < int h"
  by (simp add: state_def ALWAYS_ACTIVE_def)

theorem always_active_state_witness:
  "nStartTime dep_always_active = ALWAYS_ACTIVE \<and>
   state cfg_pow no_signal dep_always_active 0 = Inr ACTIVE \<and>
   sint ALWAYS_ACTIVE < int 0"
proof -
  have "nStartTime dep_always_active = ALWAYS_ACTIVE"
    by (simp add: dep_always_active_def)
  from this always_active_state [OF this, of cfg_pow no_signal 0] show ?thesis
    by simp
qed

text \<open>
  C3. For every deployment whose timeout height is the sentinel \<open>NO_TIMEOUT\<close>, the
  largest signed 64-bit value \<open>2 ^ 63 - 1\<close>, the timeout condition "boundary at or past
  the timeout height" is false at every boundary strictly below \<open>2 ^ 63 - 1\<close>: there the
  transition rule takes neither \<open>DEFINED\<close> nor \<open>STARTED\<close> to \<open>FAILED\<close>, and the state of the
  deployment at such a height is never \<open>FAILED\<close>.
\<close>

theorem no_timeout_never_fails:
  assumes "nTimeout d = NO_TIMEOUT" and "int h < 2 ^ 63 - 1"
  shows "sint NO_TIMEOUT = 2 ^ 63 - 1 \<and> \<not> sint (nTimeout d) \<le> int h \<and>
         transition d T DEFINED h n \<noteq> FAILED \<and> transition d T STARTED h n \<noteq> FAILED \<and>
         state p sig d h \<noteq> Inr FAILED"
proof -
  from assms have no: "\<not> sint (nTimeout d) \<le> int h"
    by (simp add: sint_NO_TIMEOUT)
  have "state_at_window p sig d (h div Period p d) \<noteq> FAILED"
  proof (rule state_at_window_not_FAILED [OF assms(1)])
    have "h div Period p d * Period p d \<le> h"
      by simp
    with assms(2) show "int (h div Period p d * Period p d) < 2 ^ 63 - 1"
      by linarith
  qed
  then have "state p sig d h \<noteq> Inr FAILED"
    by (simp add: state_def)
  with no show ?thesis
    by (simp add: sint_NO_TIMEOUT transition_not_FAILED)
qed

theorem no_timeout_never_fails_witness:
  "nTimeout dep_no_timeout = NO_TIMEOUT \<and> int 40 < 2 ^ 63 - 1 \<and>
   transition dep_no_timeout 8 DEFINED 40 0 = STARTED \<and>
   transition dep_no_timeout 8 STARTED 40 0 = STARTED \<and>
   state cfg_pow no_signal dep_no_timeout 40 \<noteq> Inr FAILED"
proof -
  have t: "nTimeout dep_no_timeout = NO_TIMEOUT"
    by (simp add: dep_no_timeout_def)
  have s: "nStartTime dep_no_timeout = 0"
    by (simp add: dep_no_timeout_def)
  have h: "int 40 < 2 ^ 63 - 1"
    by simp
  from no_timeout_never_fails [OF t h, of 8 0 cfg_pow no_signal] t s show ?thesis
    by (simp add: sint_NO_TIMEOUT)
qed

subsection \<open>Epoch length\<close>

text \<open>
  C6. A newly constructed configuration has the epoch length \<open>2 ^ 32 - 1\<close>, the largest
  unsigned 32-bit value, which is not 0; so the epoch index \<open>h / epochLength\<close> is 0 for
  every height \<open>h < 2 ^ 32 - 1\<close>: all those heights lie in epoch 0 and the epoch never
  changes.
\<close>

theorem default_epoch_length_single_epoch:
  "h < 2 ^ 32 - 1 \<Longrightarrow>
   dynamic_epoch_length (Params_init s) = UINT32_MAX \<and>
   unat (dynamic_epoch_length (Params_init s)) = 2 ^ 32 - 1 \<and>
   dynamic_epoch_length (Params_init s) \<noteq> 0 \<and>
   epochIndex (Params_init s) h = Inr 0"
  by (simp add: Params_init_def UINT32_MAX_def epochIndex_def)

theorem default_epoch_length_single_epoch_witness:
  "(4294967294 :: nat) < 2 ^ 32 - 1 \<and>
   unat (dynamic_epoch_length Params_value_init) = 4294967295 \<and>
   epochIndex Params_value_init 4294967294 = Inr 0"
proof -
  have h: "(4294967294 :: nat) < 2 ^ 32 - 1"
    by simp
  from default_epoch_length_single_epoch [OF h, of zeroed_Params] show ?thesis
    by (simp add: Params_value_init_def UINT32_MAX_def)
qed

end
